theory Spec2Isabelle
  imports Complex_Main
begin

section \<open>JavaScript numbers\<close>

text \<open>
  A JavaScript number is a binary64 value: \<open>NaN\<close>, one of the two infinities, or
  a finite value, held here as the real number it denotes. The two zeros are one value,
  as they are for \<open>===\<close>; the only zero divisor the program can produce is the
  length of an empty array, the positive zero. Every arithmetic result is rounded to the
  nearest binary64 value, ties to the even significand, with gradual underflow, and
  becomes an infinity when the rounded magnitude reaches \<open>2 ^ 1024\<close>.
\<close>

datatype jsnum = NaN | PInf | NInf | Fin real

fun isNaN :: "jsnum \<Rightarrow> bool" where
  "isNaN NaN = True"
| "isNaN _ = False"

fun isFinite :: "jsnum \<Rightarrow> bool" where
  "isFinite (Fin _) = True"
| "isFinite _ = False"

subsection \<open>Rounding to binary64\<close>

text \<open>
  The binary exponent of a positive magnitude: starting from \<open>m\<close> at exponent
  \<open>e\<close>, halve while the value is 2 or more, or double while it is below 1, within the
  exponents \<open>-1022\<close> (below it the values are subnormal) and \<open>1024\<close> (overflow).
\<close>

function exponentUp :: "real \<Rightarrow> int \<Rightarrow> int" where
  "exponentUp m e = (if 2 \<le> m \<and> e < 1024 then exponentUp (m / 2) (e + 1) else e)"
  by pat_completeness auto
termination
  by (relation "measure (\<lambda>(m, e). nat (1024 - e))") auto

declare exponentUp.simps [simp del]

function exponentDown :: "real \<Rightarrow> int \<Rightarrow> int" where
  "exponentDown m e = (if m < 1 \<and> - 1022 < e then exponentDown (m * 2) (e - 1) else e)"
  by pat_completeness auto
termination
  by (relation "measure (\<lambda>(m, e). nat (e + 1022))") auto

declare exponentDown.simps [simp del]

definition binaryExponent :: "real \<Rightarrow> int" where
  "binaryExponent m = (if 1 \<le> m then exponentUp m 0 else exponentDown m 0)"

text \<open>
  The nearest integer to a real \<open>q\<close> that is not negative, given its floor \<open>n\<close>;
  a tie goes to the even one.
\<close>

definition nearestOf :: "int \<Rightarrow> real \<Rightarrow> int" where
  "nearestOf n q =
     (if q - of_int n < 1 / 2 then n
      else if 1 / 2 < q - of_int n then n + 1
      else if even n then n else n + 1)"

definition roundTiesToEven :: "real \<Rightarrow> int" where
  "roundTiesToEven q = nearestOf \<lfloor>q\<rfloor> q"

text \<open>
  A magnitude rounded at the binary exponent \<open>e\<close>: 53 significant bits, so one unit
  in the last place is \<open>2 ^ (e - 52)\<close>.
\<close>

definition roundAt :: "int \<Rightarrow> real \<Rightarrow> real" where
  "roundAt e m = of_int (roundTiesToEven (m / 2 powi (e - 52))) * 2 powi (e - 52)"

text \<open>The value of sign \<open>x\<close> and rounded magnitude \<open>r\<close>, an infinity on overflow.\<close>

definition signedResult :: "real \<Rightarrow> real \<Rightarrow> jsnum" where
  "signedResult x r =
     (if 2 ^ 1024 \<le> r then (if 0 < x then PInf else NInf)
      else Fin (if 0 < x then r else - r))"

text \<open>The binary64 value of a real.\<close>

definition roundToDouble :: "real \<Rightarrow> jsnum" where
  "roundToDouble x =
     (if x = 0 then Fin 0
      else signedResult x (roundAt (binaryExponent \<bar>x\<bar>) \<bar>x\<bar>))"

subsection \<open>Arithmetic operators\<close>

text \<open>The operator \<open>*\<close>.\<close>

fun jmul :: "jsnum \<Rightarrow> jsnum \<Rightarrow> jsnum" where
  "jmul NaN _ = NaN"
| "jmul _ NaN = NaN"
| "jmul (Fin a) (Fin b) = roundToDouble (a * b)"
| "jmul PInf PInf = PInf"
| "jmul PInf NInf = NInf"
| "jmul NInf PInf = NInf"
| "jmul NInf NInf = PInf"
| "jmul PInf (Fin b) = (if b = 0 then NaN else if 0 < b then PInf else NInf)"
| "jmul NInf (Fin b) = (if b = 0 then NaN else if 0 < b then NInf else PInf)"
| "jmul (Fin a) PInf = (if a = 0 then NaN else if 0 < a then PInf else NInf)"
| "jmul (Fin a) NInf = (if a = 0 then NaN else if 0 < a then NInf else PInf)"

text \<open>The operator \<open>/\<close>; a zero divisor is the positive zero.\<close>

fun jdiv :: "jsnum \<Rightarrow> jsnum \<Rightarrow> jsnum" where
  "jdiv NaN _ = NaN"
| "jdiv _ NaN = NaN"
| "jdiv (Fin a) (Fin b) =
     (if b = 0 then (if a = 0 then NaN else if 0 < a then PInf else NInf)
      else roundToDouble (a / b))"
| "jdiv (Fin a) PInf = Fin 0"
| "jdiv (Fin a) NInf = Fin 0"
| "jdiv PInf (Fin b) = (if 0 \<le> b then PInf else NInf)"
| "jdiv NInf (Fin b) = (if 0 \<le> b then NInf else PInf)"
| "jdiv PInf PInf = NaN"
| "jdiv PInf NInf = NaN"
| "jdiv NInf PInf = NaN"
| "jdiv NInf NInf = NaN"

text \<open>The operator \<open>+\<close> on numbers.\<close>

fun jadd :: "jsnum \<Rightarrow> jsnum \<Rightarrow> jsnum" where
  "jadd NaN _ = NaN"
| "jadd _ NaN = NaN"
| "jadd (Fin a) (Fin b) = roundToDouble (a + b)"
| "jadd PInf NInf = NaN"
| "jadd NInf PInf = NaN"
| "jadd PInf _ = PInf"
| "jadd NInf _ = NInf"
| "jadd (Fin a) PInf = PInf"
| "jadd (Fin a) NInf = NInf"

subsection \<open>The built-in \<open>parseFloat\<close>\<close>

text \<open>
  \<open>parseFloat\<close> drops leading white space, reads the longest prefix of the rest that
  is a decimal literal (an optional sign, then \<open>Infinity\<close> or digits with an optional
  fraction and an optional exponent) and returns \<open>NaN\<close> when there is no such prefix.
  Whatever follows the literal is ignored. The result is the binary64 value of the
  number the literal denotes.
\<close>

definition isStrWhiteSpaceChar :: "char \<Rightarrow> bool" where
  "isStrWhiteSpaceChar c \<longleftrightarrow>
     c \<in> set [CHR 0x20, CHR 0x09, CHR 0x0A, CHR 0x0B, CHR 0x0C, CHR 0x0D, CHR 0xA0]"

definition isDecimalDigit :: "char \<Rightarrow> bool" where
  "isDecimalDigit c \<longleftrightarrow> c \<in> set ''0123456789''"

definition digitsValue :: "string \<Rightarrow> nat" where
  "digitsValue ds = foldl (\<lambda>acc c. acc * 10 + (of_char c - 48)) 0 ds"

text \<open>An optional sign: whether it is a minus, and the rest of the text.\<close>

fun signPart :: "string \<Rightarrow> bool \<times> string" where
  "signPart [] = (False, [])"
| "signPart (c # cs) =
     (if c = CHR ''-'' then (True, cs)
      else if c = CHR ''+'' then (False, cs)
      else (False, c # cs))"

text \<open>The exponent read at the front of a text, 0 when there is none.\<close>

fun exponentPart :: "string \<Rightarrow> int" where
  "exponentPart [] = 0"
| "exponentPart (c # cs) =
     (if c = CHR ''e'' \<or> c = CHR ''E'' then
        (let (neg, ds) = signPart cs;
             digits = takeWhile isDecimalDigit ds
         in if digits = [] then 0
            else if neg then - int (digitsValue digits)
            else int (digitsValue digits))
      else 0)"

definition scale10 :: "real \<Rightarrow> int \<Rightarrow> real" where
  "scale10 m e = (if 0 \<le> e then m * 10 ^ nat e else m / 10 ^ nat (- e))"

definition parseFloat :: "string \<Rightarrow> jsnum" where
  "parseFloat s =
     (let (neg, u) = signPart (dropWhile isStrWhiteSpaceChar s) in
      if take 8 u = ''Infinity'' then (if neg then NInf else PInf)
      else
        let intDigits = takeWhile isDecimalDigit u;
            r1 = dropWhile isDecimalDigit u;
            hasDot = (r1 \<noteq> [] \<and> hd r1 = CHR ''.'');
            fracDigits = (if hasDot then takeWhile isDecimalDigit (tl r1) else []);
            r2 = (if hasDot then dropWhile isDecimalDigit (tl r1) else r1)
        in if intDigits = [] \<and> fracDigits = [] then NaN
           else
             let mantissa = real (digitsValue intDigits)
                            + real (digitsValue fracDigits) / 10 ^ length fracDigits;
                 v = scale10 mantissa (exponentPart r2)
             in roundToDouble (if neg then - v else v))"

section \<open>Network calls\<close>

text \<open>
  A thrown value is an \<open>Error\<close> with its message or some other value. A call of
  \<open>fetch\<close> either rejects or resolves to a response with its \<open>ok\<close> flag and a body;
  reading the body with \<open>json()\<close> either rejects or gives the parsed value.
\<close>

datatype exn = Error string | NonError

datatype 'a json_result = JsonRejected exn | JsonBody 'a

datatype 'a fetch_result = FetchRejected exn | Response bool "'a json_result"

text \<open>The calls a run makes, in the order it makes them.\<close>

datatype request = Get string | PostJson string jsnum jsnum

section \<open>Coordinate resolver\<close>

record latlong_entry =
  latitude :: string
  longitude :: string

record LatLongResponse =
  status :: "string option"
  result :: "latlong_entry list option"
  message :: "string option"

record coords =
  lat :: jsnum
  long :: jsnum

definition geocode_url :: "string \<Rightarrow> string \<Rightarrow> string" where
  "geocode_url pincode countrycode =
     ''https://api.worldpostallocations.com/pincode?postalcode='' @ pincode
       @ ''&countrycode='' @ countrycode"

text \<open>
  The body of the \<open>try\<close> block of \<open>getLatitudeLongitude\<close> (the same text in
  SolarData.tsx and PostcodeSolarData.tsx), given what \<open>fetch(url)\<close> did: \<open>Inl\<close> is
  a value thrown inside the block, \<open>Inr\<close> the value the block returns.
\<close>

definition getLatitudeLongitude_try :: "LatLongResponse fetch_result \<Rightarrow> exn + coords option" where
  "getLatitudeLongitude_try fetched =
     (case fetched of
        FetchRejected e \<Rightarrow> Inl e
      | Response ok body \<Rightarrow>
          if \<not> ok then Inr None
          else (case body of
                  JsonRejected e \<Rightarrow> Inl e
                | JsonBody data \<Rightarrow>
                    (case result data of
                       None \<Rightarrow> Inr None
                     | Some [] \<Rightarrow> Inr None
                     | Some (first # _) \<Rightarrow>
                         (let lat = parseFloat (latitude first);
                              long = parseFloat (longitude first)
                          in if isNaN lat \<or> isNaN long then Inr None
                             else Inr (Some \<lparr>lat = lat, long = long\<rparr>)))))"

text \<open>
  \<open>getLatitudeLongitude\<close>: the request it makes and what it returns; the \<open>catch\<close>
  turns every thrown value into \<open>null\<close>.
\<close>

definition getLatitudeLongitude ::
  "(string \<Rightarrow> LatLongResponse fetch_result) \<Rightarrow> string \<Rightarrow> string \<Rightarrow> coords option \<times> request list" where
  "getLatitudeLongitude fetch pincode countrycode =
     (let url = geocode_url pincode countrycode in
      (case getLatitudeLongitude_try (fetch url) of
         Inl _ \<Rightarrow> None
       | Inr r \<Rightarrow> r,
       [Get url]))"

section \<open>Built-in array operations\<close>

text \<open>
  \<open>xs.slice(start, stop)\<close> for indices that are not negative: the elements from
  \<open>start\<close> up to but excluding \<open>stop\<close>, as many as the array has.
\<close>

definition slice :: "'a list \<Rightarrow> nat \<Rightarrow> nat \<Rightarrow> 'a list" where
  "slice xs start stop = take (stop - start) (drop start xs)"

text \<open>
  \<open>xs.reduce(f, init)\<close> folds from the left. Without an initial value it starts at
  the first element and throws a \<open>TypeError\<close> on an empty array.
\<close>

fun reduce :: "('a \<Rightarrow> 'a \<Rightarrow> 'a) \<Rightarrow> 'a option \<Rightarrow> 'a list \<Rightarrow> exn + 'a" where
  "reduce f (Some init) xs = Inr (foldl f init xs)"
| "reduce f None (x # xs) = Inr (foldl f x xs)"
| "reduce f None [] = Inl (Error ''Reduce of empty array with no initial value'')"

section \<open>Yield retriever and transformer\<close>

text \<open>The payload of the simulation service, as SolarDataResponse declares it.\<close>

record outputs =
  ac :: "jsnum list"
  ac_monthly :: "jsnum list"
  poa_monthly :: "jsnum list"
  solrad_monthly :: "jsnum list"
  dc_monthly :: "jsnum list"
  ac_annual :: jsnum
  solrad_annual :: jsnum
  capacity_factor :: jsnum

record SolarDataResponse =
  outputs :: outputs

text \<open>The bundle SolarData.tsx builds.\<close>

record hourly_entry =
  hour :: nat
  power :: jsnum

record monthly =
  ac_monthly :: "jsnum list"
  poa_monthly :: "jsnum list"
  solrad_monthly :: "jsnum list"
  dc_monthly :: "jsnum list"

record annual =
  ac_annual :: jsnum
  solrad_annual :: jsnum
  capacity_factor :: jsnum

record SolarData =
  hourly :: "hourly_entry list"
  monthly :: monthly
  annual :: annual

text \<open>The entries PostcodeSolarData.tsx builds.\<close>

record AggregatedSolarData =
  day :: nat
  avgPower :: jsnum

text \<open>The React state \<open>getSolarData\<close> writes: \<open>solarData\<close>, \<open>loading\<close>, \<open>error\<close>.\<close>

record 'd component_state =
  solarData :: 'd
  loading :: bool
  error :: string

definition fetch_error_message :: string where
  "fetch_error_message = ''Data cannot be fetched for this postcode''"

subsection \<open>SolarData.tsx\<close>

text \<open>The object \<open>combinedData\<close> of \<open>getSolarData\<close> (lines 93 to 110).\<close>

definition combinedData :: "SolarDataResponse \<Rightarrow> jsnum \<Rightarrow> SolarData" where
  "combinedData data solarcapacity =
     (let scaleFactor = jdiv solarcapacity (Fin 1000) in
      \<lparr>hourly = map (\<lambda>(index, power). \<lparr>hour = index, power = jmul power scaleFactor\<rparr>)
                     (enumerate 0 (outputs.ac (outputs data))),
       monthly = \<lparr>monthly.ac_monthly =
                     map (\<lambda>val. jmul val scaleFactor) (outputs.ac_monthly (outputs data)),
                  monthly.poa_monthly =
                     map (\<lambda>val. jmul val scaleFactor) (outputs.poa_monthly (outputs data)),
                  monthly.solrad_monthly = outputs.solrad_monthly (outputs data),
                  monthly.dc_monthly =
                     map (\<lambda>val. jmul val scaleFactor) (outputs.dc_monthly (outputs data))\<rparr>,
       annual = \<lparr>annual.ac_annual = jmul (outputs.ac_annual (outputs data)) scaleFactor,
                 annual.solrad_annual = outputs.solrad_annual (outputs data),
                 annual.capacity_factor = outputs.capacity_factor (outputs data)\<rparr>\<rparr>)"

text \<open>
  The \<open>try\<close> block of \<open>getSolarData\<close>. \<open>geo\<close> is what the geocoding service does with
  a URL and \<open>nrel\<close> what the proxy endpoint does with the posted coordinates. The result
  is the state the block leaves, or the value it throws, and the requests made.
\<close>

definition SolarData_getSolarData_try ::
  "(string \<Rightarrow> LatLongResponse fetch_result) \<Rightarrow> (coords \<Rightarrow> SolarDataResponse fetch_result) \<Rightarrow>
   string \<Rightarrow> string \<Rightarrow> jsnum \<Rightarrow> SolarData option component_state \<Rightarrow>
   (exn + SolarData option component_state) \<times> request list" where
  "SolarData_getSolarData_try geo nrel pincode countrycode solarcapacity s =
     (let (coords, log1) = getLatitudeLongitude geo pincode countrycode in
      case coords of
        None \<Rightarrow> (Inr (s\<lparr>error := fetch_error_message\<rparr>), log1)
      | Some c \<Rightarrow>
          (let log2 = log1 @ [PostJson ''/api/NREL'' (lat c) (long c)] in
           case nrel c of
             FetchRejected e \<Rightarrow> (Inl e, log2)
           | Response ok body \<Rightarrow>
               if \<not> ok then (Inr (s\<lparr>error := fetch_error_message\<rparr>), log2)
               else (case body of
                       JsonRejected e \<Rightarrow> (Inl e, log2)
                     | JsonBody data \<Rightarrow>
                         (Inr (s\<lparr>solarData := Some (combinedData data solarcapacity)\<rparr>), log2))))"

text \<open>
  \<open>getSolarData\<close> with its \<open>catch\<close> and \<open>finally\<close> (the message written to the
  console is left out).
\<close>

definition SolarData_getSolarData ::
  "(string \<Rightarrow> LatLongResponse fetch_result) \<Rightarrow> (coords \<Rightarrow> SolarDataResponse fetch_result) \<Rightarrow>
   string \<Rightarrow> string \<Rightarrow> jsnum \<Rightarrow> SolarData option component_state \<Rightarrow>
   SolarData option component_state \<times> request list" where
  "SolarData_getSolarData geo nrel pincode countrycode solarcapacity s =
     (let s1 = s\<lparr>loading := True, error := ''''\<rparr>;
          (r, log) = SolarData_getSolarData_try geo nrel pincode countrycode solarcapacity s1;
          s2 = (case r of Inl _ \<Rightarrow> s1\<lparr>error := fetch_error_message\<rparr> | Inr s' \<Rightarrow> s')
      in (s2\<lparr>loading := False\<rparr>, log))"

subsection \<open>PostcodeSolarData.tsx\<close>

text \<open>The array \<open>acPower\<close> (line 73).\<close>

definition acPower :: "jsnum list \<Rightarrow> jsnum \<Rightarrow> jsnum list" where
  "acPower ac_values solarcapacity =
     map (\<lambda>power. jdiv (jmul power solarcapacity) (Fin 1000)) ac_values"

text \<open>
  The loop of lines 76 to 82, from day index \<open>d\<close> on, with the entries pushed so far.
\<close>

function dailyLoop ::
  "jsnum list \<Rightarrow> nat \<Rightarrow> AggregatedSolarData list \<Rightarrow> exn + AggregatedSolarData list" where
  "dailyLoop acp d pushed =
     (if d < 365 then
        (let start = d * 24;
             stop = start + 24;
             dayPower = slice acp start stop
         in case reduce jadd (Some (Fin 0)) dayPower of
              Inl e \<Rightarrow> Inl e
            | Inr acc \<Rightarrow>
                dailyLoop acp (d + 1)
                  (pushed @ [\<lparr>day = d + 1,
                              avgPower = jdiv acc (Fin (real (length dayPower)))\<rparr>]))
      else Inr pushed)"
  by pat_completeness auto
termination
  by (relation "measure (\<lambda>(acp, d, pushed). 365 - d)") auto

declare dailyLoop.simps [simp del]

text \<open>Lines 73 to 82: from the payload's hourly series to \<open>dailyData\<close>.\<close>

definition dailyData :: "jsnum list \<Rightarrow> jsnum \<Rightarrow> exn + AggregatedSolarData list" where
  "dailyData ac_values solarcapacity = dailyLoop (acPower ac_values solarcapacity) 0 []"

definition PostcodeSolarData_getSolarData_try ::
  "(string \<Rightarrow> LatLongResponse fetch_result) \<Rightarrow> (coords \<Rightarrow> SolarDataResponse fetch_result) \<Rightarrow>
   string \<Rightarrow> string \<Rightarrow> jsnum \<Rightarrow> AggregatedSolarData list component_state \<Rightarrow>
   (exn + AggregatedSolarData list component_state) \<times> request list" where
  "PostcodeSolarData_getSolarData_try geo nrel pincode countrycode solarcapacity s =
     (let (coords, log1) = getLatitudeLongitude geo pincode countrycode in
      case coords of
        None \<Rightarrow> (Inr (s\<lparr>error := fetch_error_message\<rparr>), log1)
      | Some c \<Rightarrow>
          (let log2 = log1 @ [PostJson ''/api/NREL'' (lat c) (long c)] in
           case nrel c of
             FetchRejected e \<Rightarrow> (Inl e, log2)
           | Response ok body \<Rightarrow>
               if \<not> ok then (Inr (s\<lparr>error := fetch_error_message\<rparr>), log2)
               else (case body of
                       JsonRejected e \<Rightarrow> (Inl e, log2)
                     | JsonBody data \<Rightarrow>
                         (case dailyData (outputs.ac (outputs data)) solarcapacity of
                            Inl e \<Rightarrow> (Inl e, log2)
                          | Inr daily \<Rightarrow> (Inr (s\<lparr>solarData := daily\<rparr>), log2)))))"

definition PostcodeSolarData_getSolarData ::
  "(string \<Rightarrow> LatLongResponse fetch_result) \<Rightarrow> (coords \<Rightarrow> SolarDataResponse fetch_result) \<Rightarrow>
   string \<Rightarrow> string \<Rightarrow> jsnum \<Rightarrow> AggregatedSolarData list component_state \<Rightarrow>
   AggregatedSolarData list component_state \<times> request list" where
  "PostcodeSolarData_getSolarData geo nrel pincode countrycode solarcapacity s =
     (let s1 = s\<lparr>loading := True, error := ''''\<rparr>;
          (r, log) = PostcodeSolarData_getSolarData_try geo nrel pincode countrycode solarcapacity s1;
          s2 = (case r of Inl _ \<Rightarrow> s1\<lparr>error := fetch_error_message\<rparr> | Inr s' \<Rightarrow> s')
      in (s2\<lparr>loading := False\<rparr>, log))"

section \<open>Proxy endpoint (app/api/NREL/route.ts)\<close>

text \<open>
  What \<open>NextResponse.json\<close> sends: the relayed payload, or the object
  \<open>{error: err}\<close>, and the HTTP status (200 when none is given).
\<close>

datatype 'j response_body = ErrorObject string | Relayed 'j

record 'j NextResponse =
  body :: "'j response_body"
  status :: nat

definition nrel_url :: "string \<Rightarrow> string \<Rightarrow> string \<Rightarrow> string" where
  "nrel_url apiKey lat_text long_text =
     ''https://developer.nrel.gov/api/pvwatts/v6.json?api_key='' @ apiKey
       @ ''&lat='' @ lat_text @ ''&lon='' @ long_text
       @ ''&system_capacity=1&azimuth=180&tilt=40&array_type=1&module_type=1&losses=10&timeframe=hourly''"

text \<open>
  The \<open>try\<close> block of \<open>POST\<close>. \<open>req_json\<close> is the outcome of \<open>req.json()\<close> and of
  taking \<open>lat\<close> and \<open>long\<close> from it, each as the text the URL template prints;
  \<open>NREL_API\<close> is the environment variable, \<open>None\<close> when it is not set.
\<close>

definition POST_try ::
  "(string \<Rightarrow> 'j fetch_result) \<Rightarrow> string option \<Rightarrow> (string \<times> string) json_result \<Rightarrow>
   exn + 'j NextResponse" where
  "POST_try fetch NREL_API req_json =
     (case req_json of
        JsonRejected e \<Rightarrow> Inl e
      | JsonBody (lat_text, long_text) \<Rightarrow>
          (case (if NREL_API = Some '''' then None else NREL_API) of
             None \<Rightarrow> Inl (Error ''NREL API key is missing in environment variables'')
           | Some apiKey \<Rightarrow>
               (case fetch (nrel_url apiKey lat_text long_text) of
                  FetchRejected e \<Rightarrow> Inl e
                | Response ok payload \<Rightarrow>
                    if \<not> ok then Inl (Error ''Failed to fetch data from NREL API'')
                    else (case payload of
                            JsonRejected e \<Rightarrow> Inl e
                          | JsonBody data \<Rightarrow>
                              Inr \<lparr>body = Relayed data, status = 200\<rparr>))))"

definition POST ::
  "(string \<Rightarrow> 'j fetch_result) \<Rightarrow> string option \<Rightarrow> (string \<times> string) json_result \<Rightarrow>
   'j NextResponse" where
  "POST fetch NREL_API req_json =
     (case POST_try fetch NREL_API req_json of
        Inr response \<Rightarrow> response
      | Inl thrown \<Rightarrow>
          (let err = (case thrown of Error msg \<Rightarrow> msg | NonError \<Rightarrow> ''Unknown error'')
           in \<lparr>body = ErrorObject err, status = 500\<rparr>))"

section \<open>Notions of the specification\<close>

text \<open>
  Coordinates as the specification wants them: both finite, the latitude in
  \<open>[-90, 90]\<close> and the longitude in \<open>[-180, 180]\<close>.
\<close>

definition validCoordinates :: "coords \<Rightarrow> bool" where
  "validCoordinates c =
     (case (lat c, long c) of
        (Fin la, Fin lo) \<Rightarrow> - 90 \<le> la \<and> la \<le> 90 \<and> - 180 \<le> lo \<and> lo \<le> 180
      | _ \<Rightarrow> False)"

text \<open>
  The four reasons the specification gives for an unresolved lookup, as properties of
  what the geocoding request did. A body that cannot be read as JSON has no result
  entries.
\<close>

definition transport_failed :: "'a fetch_result \<Rightarrow> bool" where
  "transport_failed r = (case r of FetchRejected _ \<Rightarrow> True | Response _ _ \<Rightarrow> False)"

definition non_success :: "'a fetch_result \<Rightarrow> bool" where
  "non_success r = (case r of FetchRejected _ \<Rightarrow> False | Response ok _ \<Rightarrow> \<not> ok)"

definition no_result_entries :: "LatLongResponse fetch_result \<Rightarrow> bool" where
  "no_result_entries r =
     (case r of
        FetchRejected _ \<Rightarrow> False
      | Response _ (JsonRejected _) \<Rightarrow> True
      | Response _ (JsonBody data) \<Rightarrow> result data = None \<or> result data = Some [])"

definition first_entry :: "LatLongResponse fetch_result \<Rightarrow> latlong_entry option" where
  "first_entry r =
     (case r of
        FetchRejected _ \<Rightarrow> None
      | Response _ (JsonRejected _) \<Rightarrow> None
      | Response _ (JsonBody data) \<Rightarrow>
          (case result data of None \<Rightarrow> None | Some [] \<Rightarrow> None | Some (e # _) \<Rightarrow> Some e))"

text \<open>The first entry has a coordinate text that \<open>parseFloat\<close> reads as \<open>NaN\<close>.\<close>

definition first_not_a_number :: "LatLongResponse fetch_result \<Rightarrow> bool" where
  "first_not_a_number r =
     (case first_entry r of
        None \<Rightarrow> False
      | Some e \<Rightarrow> isNaN (parseFloat (latitude e)) \<or> isNaN (parseFloat (longitude e)))"

text \<open>The first entry has a coordinate text that does not parse to a finite number.\<close>

definition first_not_finite :: "LatLongResponse fetch_result \<Rightarrow> bool" where
  "first_not_finite r =
     (case first_entry r of
        None \<Rightarrow> False
      | Some e \<Rightarrow> \<not> isFinite (parseFloat (latitude e)) \<or> \<not> isFinite (parseFloat (longitude e)))"

text \<open>The arithmetic mean in the arithmetic of the language: the sum over the count.\<close>

definition mean :: "jsnum list \<Rightarrow> jsnum" where
  "mean xs = jdiv (foldl jadd (Fin 0) xs) (Fin (real (length xs)))"

text \<open>The entry of day index \<open>d\<close> (from 0): the mean of its window of \<open>acp\<close>.\<close>

definition dayEntry :: "jsnum list \<Rightarrow> nat \<Rightarrow> AggregatedSolarData" where
  "dayEntry acp d = \<lparr>day = d + 1, avgPower = mean (slice acp (d * 24) (d * 24 + 24))\<rparr>"

subsection \<open>Concrete services and payloads\<close>

text \<open>A service that gives the same answer to every request.\<close>

definition answering :: "'b \<Rightarrow> 'a \<Rightarrow> 'b" where
  "answering r request = r"

text \<open>A successful geocoding response listing the given entries.\<close>

definition listing :: "latlong_entry list \<Rightarrow> LatLongResponse fetch_result" where
  "listing es =
     Response True (JsonBody \<lparr>LatLongResponse.status = None, result = Some es, message = None\<rparr>)"

definition found :: "string \<Rightarrow> string \<Rightarrow> LatLongResponse fetch_result" where
  "found la lo = listing [\<lparr>latitude = la, longitude = lo\<rparr>]"

text \<open>A small upstream payload.\<close>

definition sample_outputs :: outputs where
  "sample_outputs =
     \<lparr>ac = [Fin 2, Fin 4],
      outputs.ac_monthly = [Fin 100, Fin 200],
      outputs.poa_monthly = [Fin 150],
      outputs.solrad_monthly = [Fin 5.5, Fin 6],
      outputs.dc_monthly = [Fin 110],
      outputs.ac_annual = Fin 1500,
      outputs.solrad_annual = Fin 5.75,
      outputs.capacity_factor = Fin 17\<rparr>"

definition sample_data :: SolarDataResponse where
  "sample_data = \<lparr>outputs = sample_outputs\<rparr>"

text \<open>The same payload with the single hourly value 3.\<close>

definition single_hour_data :: SolarDataResponse where
  "single_hour_data = \<lparr>outputs = sample_outputs\<lparr>ac := [Fin 3]\<rparr>\<rparr>"

text \<open>The state of the SolarData component when it is mounted.\<close>

definition SolarData_initial :: "SolarData option component_state" where
  "SolarData_initial = \<lparr>solarData = None, loading = False, error = ''''\<rparr>"

section \<open>Properties of the coordinate resolver\<close>

text \<open>
  Evaluation of the rounding and of \<open>parseFloat\<close> on the texts used below: the
  literal is read first, its value is rounded afterwards.
\<close>

lemmas double_eval =
  roundToDouble_def signedResult_def roundAt_def roundTiesToEven_def nearestOf_def
  binaryExponent_def exponentUp.simps exponentDown.simps

lemmas parseFloat_eval =
  parseFloat_def isStrWhiteSpaceChar_def isDecimalDigit_def digitsValue_def scale10_def

lemma parseFloat_special:
  "parseFloat ''Infinity'' = PInf"
  "parseFloat ''-Infinity'' = NInf"
  "parseFloat ''abc'' = NaN"
  by (simp_all add: parseFloat_eval)

lemma parseFloat_values:
  "parseFloat ''0'' = Fin 0"
  "parseFloat ''200.5'' = Fin 200.5"
  "parseFloat ''51.5'' = Fin 51.5"
  "parseFloat ''18.94'' = Fin (5331136058899825 / 2 ^ 48)"
  "parseFloat ''72.83'' = Fin (5124955638459269 / 2 ^ 46)"
  "parseFloat ''-0.12'' = Fin (- (1080863910568919 / 2 ^ 53))"
  by (simp_all add: parseFloat_eval) (simp_all add: double_eval)

text \<open>
  The rounding at work: \<open>0.1 + 0.2\<close> is \<open>0.30000000000000004\<close>; \<open>2 ^ 53 + 1\<close>
  is a tie and goes to the even neighbour, as \<open>2 ^ 53 + 3\<close> does; the mean of 24
  values \<open>0.1\<close> is \<open>0.10000000000000003\<close>; \<open>1e308 * 10\<close> overflows and
  \<open>1 / 2 ^ 1075\<close> underflows to zero.
\<close>

lemma rounding_examples:
  "jadd (Fin (3602879701896397 / 2 ^ 55)) (Fin (3602879701896397 / 2 ^ 54))
     = Fin (1351079888211149 / 2 ^ 52)"
  "jadd (Fin (2 ^ 53)) (Fin 1) = Fin (2 ^ 53)"
  "jadd (Fin (2 ^ 53)) (Fin 3) = Fin (2 ^ 53 + 4)"
  "mean (replicate 24 (Fin (3602879701896397 / 2 ^ 55))) = Fin (1801439850948199 / 2 ^ 54)"
  by (simp_all add: mean_def double_eval eval_nat_numeral)

lemma overflow_examples:
  "jmul (Fin (10 ^ 308)) (Fin 10) = PInf"
  "jdiv (Fin 1) (Fin (2 ^ 1075)) = Fin 0"
  by (simp_all add: double_eval)

lemma parseFloat_extremes:
  "parseFloat ''1e400'' = PInf"
  "parseFloat ''-1e-400'' = Fin 0"
  by (simp_all add: parseFloat_eval) (simp_all add: double_eval)

lemmas resolve_eval =
  getLatitudeLongitude_def getLatitudeLongitude_try_def answering_def found_def listing_def
  Let_def

lemma getLatitudeLongitude_None:
  "fst (getLatitudeLongitude geo pincode countrycode) = None \<longleftrightarrow>
     (let r = geo (geocode_url pincode countrycode)
      in transport_failed r \<or> non_success r \<or> no_result_entries r \<or> first_not_a_number r)"
  by (simp add: getLatitudeLongitude_def getLatitudeLongitude_try_def Let_def
        transport_failed_def non_success_def no_result_entries_def first_not_a_number_def
        first_entry_def
      split: fetch_result.split json_result.split option.split list.split)

text \<open>
  C4, as stated, fails: the resolver checks \<open>isNaN\<close> and nothing else. A first entry
  with latitude \<open>Infinity\<close> and longitude \<open>200.5\<close> is returned as coordinates, and
  these are neither both finite nor within the bounds.
\<close>

theorem resolve_bounds_counterexample:
  "fst (getLatitudeLongitude (answering (found ''Infinity'' ''200.5'')) ''400001'' ''IN'')
     = Some \<lparr>lat = PInf, long = Fin 200.5\<rparr>
   \<and> \<not> validCoordinates \<lparr>lat = PInf, long = Fin 200.5\<rparr>"
  by (simp add: resolve_eval parseFloat_special parseFloat_values validCoordinates_def)

text \<open>
  C4, amended: whenever the resolver returns coordinates, neither field is \<open>NaN\<close>,
  the response was successful with at least one result entry, and the fields are what
  \<open>parseFloat\<close> reads from the latitude and longitude texts of the first entry.
\<close>

theorem resolve_not_NaN:
  "fst (getLatitudeLongitude geo pincode countrycode) = Some c \<Longrightarrow>
   \<not> isNaN (lat c) \<and> \<not> isNaN (long c) \<and>
   (\<exists>data first others.
      geo (geocode_url pincode countrycode) = Response True (JsonBody data) \<and>
      result data = Some (first # others) \<and>
      lat c = parseFloat (latitude first) \<and> long c = parseFloat (longitude first))"
  by (auto simp: getLatitudeLongitude_def getLatitudeLongitude_try_def Let_def
      split: fetch_result.splits json_result.splits option.splits list.splits if_splits)

text \<open>
  The default query of the component, answered with one entry; the coordinates are
  the binary64 values nearest to 18.94 and 72.83.
\<close>

theorem resolve_not_NaN_witness:
  "fst (getLatitudeLongitude (answering (found ''18.94'' ''72.83'')) ''400001'' ''IN'')
     = Some \<lparr>lat = Fin (5331136058899825 / 2 ^ 48), long = Fin (5124955638459269 / 2 ^ 46)\<rparr>
   \<and> \<not> isNaN (lat \<lparr>lat = Fin (5331136058899825 / 2 ^ 48),
                       long = Fin (5124955638459269 / 2 ^ 46)\<rparr>)
   \<and> \<not> isNaN (long \<lparr>lat = Fin (5331136058899825 / 2 ^ 48),
                        long = Fin (5124955638459269 / 2 ^ 46)\<rparr>)"
proof -
  have h: "fst (getLatitudeLongitude (answering (found ''18.94'' ''72.83'')) ''400001'' ''IN'')
             = Some \<lparr>lat = Fin (5331136058899825 / 2 ^ 48),
                     long = Fin (5124955638459269 / 2 ^ 46)\<rparr>"
    by (simp add: resolve_eval parseFloat_values)
  from resolve_not_NaN [OF h] h show ?thesis
    by blast
qed

text \<open>
  C5, as stated, fails in one of its four conditions: a first entry whose latitude text
  is \<open>-Infinity\<close> does not parse to a finite number, yet the resolver returns
  coordinates.
\<close>

theorem resolve_finite_counterexample:
  "first_not_finite (found ''-Infinity'' ''0'')
   \<and> fst (getLatitudeLongitude (answering (found ''-Infinity'' ''0'')) ''400001'' ''IN'')
       = Some \<lparr>lat = NInf, long = Fin 0\<rparr>"
  by (simp add: resolve_eval parseFloat_special parseFloat_values first_not_finite_def
        first_entry_def)

text \<open>
  C5, amended: the resolver returns \<open>null\<close> (it has no way to throw: its \<open>catch\<close>
  takes every thrown value) exactly when the transport call fails, the response is not
  successful, the response has no result entries, or \<open>parseFloat\<close> reads \<open>NaN\<close> from
  the latitude or the longitude text of the first entry. Two successful responses with
  the same first entry give the same output, whatever entries follow.
\<close>

theorem resolve_unresolved_iff:
  "(fst (getLatitudeLongitude geo pincode countrycode) = None \<longleftrightarrow>
      transport_failed (geo (geocode_url pincode countrycode)) \<or>
      non_success (geo (geocode_url pincode countrycode)) \<or>
      no_result_entries (geo (geocode_url pincode countrycode)) \<or>
      first_not_a_number (geo (geocode_url pincode countrycode)))
   \<and> (geo (geocode_url pincode countrycode) = Response ok (JsonBody data) \<and>
       geo' (geocode_url pincode countrycode) = Response ok (JsonBody data') \<and>
       result data = Some (e # es) \<and> result data' = Some (e # es') \<longrightarrow>
       fst (getLatitudeLongitude geo pincode countrycode)
         = fst (getLatitudeLongitude geo' pincode countrycode))"
proof
  show "fst (getLatitudeLongitude geo pincode countrycode) = None \<longleftrightarrow>
      transport_failed (geo (geocode_url pincode countrycode)) \<or>
      non_success (geo (geocode_url pincode countrycode)) \<or>
      no_result_entries (geo (geocode_url pincode countrycode)) \<or>
      first_not_a_number (geo (geocode_url pincode countrycode))"
    by (simp add: getLatitudeLongitude_None Let_def)
next
  show "geo (geocode_url pincode countrycode) = Response ok (JsonBody data) \<and>
       geo' (geocode_url pincode countrycode) = Response ok (JsonBody data') \<and>
       result data = Some (e # es) \<and> result data' = Some (e # es') \<longrightarrow>
       fst (getLatitudeLongitude geo pincode countrycode)
         = fst (getLatitudeLongitude geo' pincode countrycode)"
    by (simp add: getLatitudeLongitude_def getLatitudeLongitude_try_def Let_def)
qed

text \<open>
  A rejected request, an empty result list, a latitude text that is no number, and a
  response with two entries against the response with the first of them alone.
\<close>

theorem resolve_unresolved_iff_witness:
  "transport_failed (FetchRejected (Error ''Failed to fetch'') :: LatLongResponse fetch_result)
   \<and> fst (getLatitudeLongitude (answering (FetchRejected (Error ''Failed to fetch'')))
            ''400001'' ''IN'') = None
   \<and> no_result_entries (listing [])
   \<and> fst (getLatitudeLongitude (answering (listing [])) ''400001'' ''IN'') = None
   \<and> first_not_a_number (found ''abc'' ''72.83'')
   \<and> fst (getLatitudeLongitude (answering (found ''abc'' ''72.83'')) ''400001'' ''IN'') = None
   \<and> fst (getLatitudeLongitude
             (answering (listing [\<lparr>latitude = ''18.94'', longitude = ''72.83''\<rparr>,
                                  \<lparr>latitude = ''51.5'', longitude = ''-0.12''\<rparr>]))
             ''400001'' ''IN'')
       = fst (getLatitudeLongitude (answering (found ''18.94'' ''72.83'')) ''400001'' ''IN'')"
proof -
  have a: "transport_failed
             (FetchRejected (Error ''Failed to fetch'') :: LatLongResponse fetch_result)"
    by (simp add: transport_failed_def)
  have b: "no_result_entries (listing [])"
    by (simp add: no_result_entries_def listing_def)
  have c: "first_not_a_number (found ''abc'' ''72.83'')"
    by (simp add: first_not_a_number_def first_entry_def found_def listing_def
          parseFloat_special)
  from a b c
    resolve_unresolved_iff
      [where geo = "answering (FetchRejected (Error ''Failed to fetch''))"
         and pincode = "''400001''" and countrycode = "''IN''"]
    resolve_unresolved_iff
      [where geo = "answering (listing [])"
         and pincode = "''400001''" and countrycode = "''IN''"]
    resolve_unresolved_iff
      [where geo = "answering (found ''abc'' ''72.83'')"
         and pincode = "''400001''" and countrycode = "''IN''"]
    resolve_unresolved_iff
      [where geo = "answering (listing [\<lparr>latitude = ''18.94'', longitude = ''72.83''\<rparr>,
                                        \<lparr>latitude = ''51.5'', longitude = ''-0.12''\<rparr>])"
         and geo' = "answering (found ''18.94'' ''72.83'')"
         and pincode = "''400001''" and countrycode = "''IN''" and ok = True
         and data = "\<lparr>LatLongResponse.status = None,
                       result = Some [\<lparr>latitude = ''18.94'', longitude = ''72.83''\<rparr>,
                                      \<lparr>latitude = ''51.5'', longitude = ''-0.12''\<rparr>],
                       message = None\<rparr>"
         and data' = "\<lparr>LatLongResponse.status = None,
                        result = Some [\<lparr>latitude = ''18.94'', longitude = ''72.83''\<rparr>],
                        message = None\<rparr>"
         and e = "\<lparr>latitude = ''18.94'', longitude = ''72.83''\<rparr>"
         and es = "[\<lparr>latitude = ''51.5'', longitude = ''-0.12''\<rparr>]" and es' = "[]"]
  show ?thesis
    by (simp add: answering_def listing_def found_def)
qed

section \<open>Properties of the transformer\<close>

lemma mean_Nil: "mean [] = NaN"
  by (simp add: mean_def)

lemma slice_nth: "slice xs a b = map (nth xs) [a..<min b (length xs)]"
proof (rule nth_equalityI)
  show "length (slice xs a b) = length (map (nth xs) [a..<min b (length xs)])"
    by (simp add: slice_def; arith)
next
  fix i
  assume "i < length (slice xs a b)"
  then have "i < b - a" and "a + i < length xs"
    by (auto simp: slice_def)
  then show "slice xs a b ! i = map (nth xs) [a..<min b (length xs)] ! i"
    by (simp add: slice_def)
qed

lemma slice_take: "b \<le> n \<Longrightarrow> slice (take n xs) a b = slice xs a b"
  by (simp add: slice_def drop_take min_def)

lemma slice_acPower:
  "slice (acPower H cap) a b =
     map (\<lambda>i. jdiv (jmul (H ! i) cap) (Fin 1000)) [a..<min b (length H)]"
  by (simp add: slice_nth acPower_def)

lemma dailyLoop_closed:
  "dailyLoop acp d pushed = Inr (pushed @ map (dayEntry acp) [d..<365])"
proof (induction acp d pushed rule: dailyLoop.induct)
  case (1 acp d pushed)
  show ?case
  proof (cases "d < 365")
    case True
    then have upt: "[d..<365] = d # [Suc d..<365]"
      by (simp add: upt_conv_Cons)
    from True "1.IH" [OF True refl refl refl, of "foldl jadd (Fin 0) (slice acp (d * 24) (d * 24 + 24))"]
    show ?thesis
      by (subst dailyLoop.simps) (simp add: upt dayEntry_def mean_def Let_def)
  next
    case False
    then show ?thesis
      by (subst dailyLoop.simps) simp
  qed
qed

lemma dailyData_closed:
  "dailyData H cap = Inr (map (dayEntry (acPower H cap)) [0..<365])"
  by (simp add: dailyData_def dailyLoop_closed)

lemma map_day_dayEntry: "map day (map (dayEntry acp) [a..<b]) = [Suc a..<Suc b]"
  by (simp add: dayEntry_def o_def map_Suc_upt)

text \<open>
  C1, as stated, fails for SolarData.tsx: the component multiplies each hourly value by
  the rounded quotient \<open>solarcapacity / 1000\<close>. For the hourly value 3 at capacity
  100 it stores \<open>3 * 0.1 = 0.30000000000000004\<close>, while \<open>3 * 100 / 1000\<close> is
  \<open>0.3\<close>.
\<close>

theorem hourly_rescale_counterexample:
  "power (hourly (combinedData single_hour_data (Fin 100)) ! 0)
     = Fin (5404319552844596 / 2 ^ 54) \<and>
   jdiv (jmul (outputs.ac (outputs single_hour_data) ! 0) (Fin 100)) (Fin 1000)
     = Fin (5404319552844595 / 2 ^ 54) \<and>
   power (hourly (combinedData single_hour_data (Fin 100)) ! 0)
     \<noteq> jdiv (jmul (outputs.ac (outputs single_hour_data) ! 0) (Fin 100)) (Fin 1000)"
proof -
  have scaled: "jmul (Fin 3) (jdiv (Fin 100) (Fin 1000)) = Fin (5404319552844596 / 2 ^ 54)"
    by (simp add: double_eval)
  have claimed: "jdiv (jmul (Fin 3) (Fin 100)) (Fin 1000) = Fin (5404319552844595 / 2 ^ 54)"
    by (simp add: double_eval)
  have stored: "power (hourly (combinedData single_hour_data (Fin 100)) ! 0)
                  = jmul (Fin 3) (jdiv (Fin 100) (Fin 1000))"
    by (simp add: combinedData_def single_hour_data_def sample_outputs_def Let_def
        del: jmul.simps jdiv.simps)
  have first: "outputs.ac (outputs single_hour_data) ! 0 = Fin 3"
    by (simp add: single_hour_data_def sample_outputs_def)
  show ?thesis
    by (simp only: stored first scaled claimed) simp
qed

text \<open>
  C1, amended: for every index \<open>i\<close> of the upstream hourly series, the hourly output
  of SolarData.tsx has as many entries as the series, and entry \<open>i\<close> has
  \<open>hour = i\<close> and \<open>power = H[i] * (capacityKW / 1000)\<close>, the scale factor being
  computed first; PostcodeSolarData.tsx computes \<open>(H[i] * capacityKW) / 1000\<close> for its
  rescaled series.
\<close>

theorem hourly_rescale:
  "i < length (outputs.ac (outputs data)) \<Longrightarrow>
   length (hourly (combinedData data cap)) = length (outputs.ac (outputs data)) \<and>
   hour (hourly (combinedData data cap) ! i) = i \<and>
   power (hourly (combinedData data cap) ! i)
     = jmul (outputs.ac (outputs data) ! i) (jdiv cap (Fin 1000)) \<and>
   acPower (outputs.ac (outputs data)) cap ! i
     = jdiv (jmul (outputs.ac (outputs data) ! i) cap) (Fin 1000)"
  by (simp add: combinedData_def Let_def acPower_def nth_enumerate_eq)

text \<open>At capacity 5000 the second hourly value 4 becomes 20, at hour 1.\<close>

theorem hourly_rescale_witness:
  "1 < length (outputs.ac (outputs sample_data)) \<and>
   hourly (combinedData sample_data (Fin 5000)) ! 1 = \<lparr>hour = 1, power = Fin 20\<rparr> \<and>
   acPower (outputs.ac (outputs sample_data)) (Fin 5000) ! 1 = Fin 20"
proof -
  have h: "1 < length (outputs.ac (outputs sample_data))"
    by (simp add: sample_data_def sample_outputs_def)
  have v: "outputs.ac (outputs sample_data) ! 1 = Fin 4"
    by (simp add: sample_data_def sample_outputs_def)
  have a: "jmul (Fin 4) (jdiv (Fin 5000) (Fin 1000)) = Fin 20"
    by (simp add: double_eval)
  have b: "jdiv (jmul (Fin 4) (Fin 5000)) (Fin 1000) = Fin 20"
    by (simp add: double_eval)
  from hourly_rescale [OF h, of "Fin 5000"] h v a b show ?thesis
    by (simp add: hourly_entry.equality)
qed

text \<open>
  C3: \<open>ac_monthly\<close>, \<open>poa_monthly\<close>, \<open>dc_monthly\<close> (element by element) and
  \<open>ac_annual\<close> are multiplied by \<open>capacityKW / 1000\<close>; \<open>solrad_monthly\<close>,
  \<open>solrad_annual\<close> and \<open>capacity_factor\<close> are the payload's own values, so
  \<open>solrad_monthly\<close> is the same at capacity 1 and at capacity 5000.
\<close>

theorem monthly_annual_rescale:
  "monthly.ac_monthly (monthly (combinedData data cap))
     = map (\<lambda>v. jmul v (jdiv cap (Fin 1000))) (outputs.ac_monthly (outputs data)) \<and>
   monthly.poa_monthly (monthly (combinedData data cap))
     = map (\<lambda>v. jmul v (jdiv cap (Fin 1000))) (outputs.poa_monthly (outputs data)) \<and>
   monthly.dc_monthly (monthly (combinedData data cap))
     = map (\<lambda>v. jmul v (jdiv cap (Fin 1000))) (outputs.dc_monthly (outputs data)) \<and>
   annual.ac_annual (annual (combinedData data cap))
     = jmul (outputs.ac_annual (outputs data)) (jdiv cap (Fin 1000)) \<and>
   monthly.solrad_monthly (monthly (combinedData data cap))
     = outputs.solrad_monthly (outputs data) \<and>
   annual.solrad_annual (annual (combinedData data cap))
     = outputs.solrad_annual (outputs data) \<and>
   annual.capacity_factor (annual (combinedData data cap))
     = outputs.capacity_factor (outputs data) \<and>
   monthly.solrad_monthly (monthly (combinedData data (Fin 1)))
     = monthly.solrad_monthly (monthly (combinedData data (Fin 5000)))"
  by (simp add: combinedData_def Let_def)

text \<open>
  C2: for an hourly series of at least 8760 values the daily aggregation returns
  exactly 365 entries, their \<open>day\<close> fields are 1, 2, ..., 365 in this order, and the
  entry of day index \<open>d\<close> (from 0) holds the mean of the rescaled hourly values at
  the indices \<open>d * 24\<close> to \<open>d * 24 + 23\<close>.
\<close>

theorem daily_365:
  assumes "8760 \<le> length H"
  shows "\<exists>ds. dailyData H cap = Inr ds \<and> length ds = 365 \<and> map day ds = [1..<366] \<and>
           (\<forall>d<365. avgPower (ds ! d)
              = mean (map (\<lambda>i. jdiv (jmul (H ! i) cap) (Fin 1000)) [d * 24..<d * 24 + 24]))"
proof -
  let ?ds = "map (dayEntry (acPower H cap)) [0..<365]"
  have "avgPower (?ds ! d)
          = mean (map (\<lambda>i. jdiv (jmul (H ! i) cap) (Fin 1000)) [d * 24..<d * 24 + 24])"
    if "d < 365" for d
  proof -
    from that assms have "min (d * 24 + 24) (length H) = d * 24 + 24"
      by simp
    with that show ?thesis
      by (simp add: dayEntry_def slice_acPower)
  qed
  moreover have "map day ?ds = [1..<366]"
    by (simp only: map_day_dayEntry) simp
  ultimately show ?thesis
    by (simp add: dailyData_closed)
qed

text \<open>
  The scenario of the specification: 8760 values of 2 at capacity 1000 give the
  average 2 on the last day, day 365.
\<close>

theorem daily_365_witness:
  "8760 \<le> length (replicate 8760 (Fin 2)) \<and>
   (\<exists>ds. dailyData (replicate 8760 (Fin 2)) (Fin 1000) = Inr ds \<and> length ds = 365 \<and>
         day (ds ! 364) = 365 \<and> avgPower (ds ! 364) = Fin 2)"
proof -
  have h: "8760 \<le> length (replicate 8760 (Fin 2))"
    by simp
  from daily_365 [OF h, of "Fin 1000"] obtain ds where
    ds: "dailyData (replicate 8760 (Fin 2)) (Fin 1000) = Inr ds" "length ds = 365"
        "map day ds = [1..<366]"
    and avg: "avgPower (ds ! 364)
          = mean (map (\<lambda>i. jdiv (jmul (replicate 8760 (Fin 2) ! i) (Fin 1000)) (Fin 1000))
                    [364 * 24..<364 * 24 + 24])"
    by auto
  have rescaled: "jdiv (jmul (Fin 2) (Fin 1000)) (Fin 1000) = Fin 2"
    by (simp add: double_eval)
  have "map (\<lambda>i. jdiv (jmul (replicate 8760 (Fin 2) ! i) (Fin 1000)) (Fin 1000))
          [364 * 24..<364 * 24 + 24]
        = map (\<lambda>i. Fin 2) [364 * 24..<364 * 24 + 24]"
  proof (rule map_cong [OF refl])
    fix i :: nat
    assume "i \<in> set [364 * 24..<364 * 24 + 24]"
    then have "i < 8760"
      by (simp only: set_upt atLeastLessThan_iff) arith
    then show "jdiv (jmul (replicate 8760 (Fin 2) ! i) (Fin 1000)) (Fin 1000) = Fin 2"
      by (simp only: nth_replicate rescaled)
  qed
  also have "\<dots> = replicate 24 (Fin 2)"
    by (simp only: map_replicate_const length_upt) simp
  finally have window: "avgPower (ds ! 364) = mean (replicate 24 (Fin 2))"
    using avg by simp
  have "mean (replicate 24 (Fin 2)) = Fin 2"
    by (simp add: mean_def double_eval eval_nat_numeral)
  with window have "avgPower (ds ! 364) = Fin 2"
    by simp
  moreover have "day (ds ! 364) = 365"
  proof -
    have "364 < length ds"
      using ds(2) by simp
    then have "day (ds ! 364) = map day ds ! 364"
      by (rule nth_map [symmetric])
    also have "\<dots> = [1..<366] ! 364"
      by (simp only: ds)
    also have "\<dots> = 365"
      by simp
    finally show ?thesis .
  qed
  ultimately show ?thesis
    using h ds by auto
qed

text \<open>
  C6: for an hourly series shorter than 8760 values the daily aggregation throws
  nothing and returns its 365 entries; a window that extends past the end of the
  series averages the rescaled values from its start to the end of the series, and
  this is \<open>0 / 0 = NaN\<close> when the window starts at or past the end.
\<close>

theorem short_input_daily:
  assumes "length H < 8760"
  shows "\<exists>ds. dailyData H cap = Inr ds \<and> length ds = 365 \<and>
           (\<forall>d<365. length H < d * 24 + 24 \<longrightarrow>
              avgPower (ds ! d)
                = mean (map (\<lambda>i. jdiv (jmul (H ! i) cap) (Fin 1000)) [d * 24..<length H]) \<and>
              (length H \<le> d * 24 \<longrightarrow> avgPower (ds ! d) = NaN))"
proof -
  let ?ds = "map (dayEntry (acPower H cap)) [0..<365]"
  have "avgPower (?ds ! d)
          = mean (map (\<lambda>i. jdiv (jmul (H ! i) cap) (Fin 1000)) [d * 24..<length H]) \<and>
        (length H \<le> d * 24 \<longrightarrow> avgPower (?ds ! d) = NaN)"
    if "d < 365" and "length H < d * 24 + 24" for d
  proof -
    from that have "min (d * 24 + 24) (length H) = length H"
      by simp
    with that show ?thesis
      by (simp add: dayEntry_def slice_acPower mean_Nil)
  qed
  then show ?thesis
    by (simp add: dailyData_closed mean_Nil)
qed

text \<open>
  Two hourly values 2 and 4: day 1 averages the two values present, day 2 has none.
\<close>

theorem short_input_daily_witness:
  "length [Fin 2, Fin 4] < 8760 \<and>
   (\<exists>ds. dailyData [Fin 2, Fin 4] (Fin 1000) = Inr ds \<and> length ds = 365 \<and>
         avgPower (ds ! 0) = Fin 3 \<and> avgPower (ds ! 1) = NaN)"
proof -
  have h: "length [Fin 2, Fin 4] < 8760"
    by simp
  from short_input_daily [OF h, of "Fin 1000"] obtain ds where
    ds: "dailyData [Fin 2, Fin 4] (Fin 1000) = Inr ds" "length ds = 365"
    and avg: "\<forall>d<365. length [Fin 2, Fin 4] < d * 24 + 24 \<longrightarrow>
              avgPower (ds ! d)
                = mean (map (\<lambda>i. jdiv (jmul ([Fin 2, Fin 4] ! i) (Fin 1000)) (Fin 1000))
                          [d * 24..<length [Fin 2, Fin 4]]) \<and>
              (length [Fin 2, Fin 4] \<le> d * 24 \<longrightarrow> avgPower (ds ! d) = NaN)"
    by blast
  have present: "mean (map (\<lambda>i. jdiv (jmul ([Fin 2, Fin 4] ! i) (Fin 1000)) (Fin 1000))
                         [0 * 24..<length [Fin 2, Fin 4]]) = Fin 3"
    by (simp add: upt_rec) (simp add: mean_def double_eval)
  from avg [rule_format, of 0] have "avgPower (ds ! 0) = Fin 3"
    by (simp only: present) simp
  moreover from avg [rule_format, of 1] have "avgPower (ds ! 1) = NaN"
    by (simp add: mean_Nil)
  ultimately show ?thesis
    using h ds by auto
qed

lemma dayEntry_take:
  assumes "d < 365"
  shows "dayEntry (acPower (take 8760 H) cap) d = dayEntry (acPower H cap) d"
proof -
  from assms have "d * 24 + 24 \<le> 8760"
    by simp
  then have "slice (take 8760 (acPower H cap)) (d * 24) (d * 24 + 24)
               = slice (acPower H cap) (d * 24) (d * 24 + 24)"
    by (rule slice_take)
  then show ?thesis
    by (simp add: dayEntry_def acPower_def take_map)
qed

lemma dailyData_take: "dailyData (take 8760 H) cap = dailyData H cap"
  by (simp add: dailyData_closed dayEntry_take)

text \<open>
  C10: for an hourly series of any length the daily aggregation returns exactly 365
  entries with \<open>day\<close> fields 1 to 365, and two series that agree on their first
  8760 values give the same daily series.
\<close>

theorem daily_any_length:
  "(\<exists>ds. dailyData H cap = Inr ds \<and> length ds = 365 \<and> map day ds = [1..<366]) \<and>
   (take 8760 H = take 8760 H' \<longrightarrow> dailyData H cap = dailyData H' cap)"
proof
  have "map day (map (dayEntry (acPower H cap)) [0..<365]) = [1..<366]"
    by (simp only: map_day_dayEntry) simp
  then show "\<exists>ds. dailyData H cap = Inr ds \<and> length ds = 365 \<and> map day ds = [1..<366]"
    by (simp add: dailyData_closed)
next
  show "take 8760 H = take 8760 H' \<longrightarrow> dailyData H cap = dailyData H' cap"
    by (metis dailyData_take)
qed

text \<open>
  Two series longer than 8760 that differ only past index 8759, and the empty series.
\<close>

theorem daily_any_length_witness:
  "take 8760 (replicate 8760 (Fin 2) @ [Fin 5])
     = take 8760 (replicate 8760 (Fin 2) @ [Fin 7, Fin 9]) \<and>
   dailyData (replicate 8760 (Fin 2) @ [Fin 5]) (Fin 1000)
     = dailyData (replicate 8760 (Fin 2) @ [Fin 7, Fin 9]) (Fin 1000) \<and>
   (\<exists>ds. dailyData [] (Fin 1000) = Inr ds \<and> length ds = 365 \<and> map day ds = [1..<366])"
proof -
  have h: "take 8760 (replicate 8760 (Fin 2) @ [Fin 5])
             = take 8760 (replicate 8760 (Fin 2) @ [Fin 7, Fin 9])"
    by simp
  from h daily_any_length [of "replicate 8760 (Fin 2) @ [Fin 5]" "Fin 1000"
                              "replicate 8760 (Fin 2) @ [Fin 7, Fin 9]"]
       daily_any_length [of "[]" "Fin 1000" "[]"]
  show ?thesis
    by blast
qed

section \<open>Properties of the pipeline\<close>

lemma getLatitudeLongitude_requests:
  "getLatitudeLongitude geo pincode countrycode
     = (fst (getLatitudeLongitude geo pincode countrycode), [Get (geocode_url pincode countrycode)])"
  by (simp add: getLatitudeLongitude_def Let_def)

lemma SolarData_getSolarData_unresolved:
  assumes "fst (getLatitudeLongitude geo pincode countrycode) = None"
  shows "SolarData_getSolarData geo nrel pincode countrycode cap s
           = (s\<lparr>loading := False, error := fetch_error_message\<rparr>,
              [Get (geocode_url pincode countrycode)])"
proof -
  from assms have "getLatitudeLongitude geo pincode countrycode
                     = (None, [Get (geocode_url pincode countrycode)])"
    using getLatitudeLongitude_requests [of geo pincode countrycode] by simp
  then show ?thesis
    by (simp add: SolarData_getSolarData_def SolarData_getSolarData_try_def)
qed

lemma SolarData_getSolarData_resolved:
  assumes "fst (getLatitudeLongitude geo pincode countrycode) = Some co"
  shows "snd (SolarData_getSolarData geo nrel pincode countrycode cap s)
           = [Get (geocode_url pincode countrycode), PostJson ''/api/NREL'' (lat co) (long co)]"
proof -
  from assms have "getLatitudeLongitude geo pincode countrycode
                     = (Some co, [Get (geocode_url pincode countrycode)])"
    using getLatitudeLongitude_requests [of geo pincode countrycode] by simp
  then show ?thesis
    by (simp add: SolarData_getSolarData_def SolarData_getSolarData_try_def Let_def
        split: fetch_result.split json_result.split)
qed

lemma SolarData_getSolarData_success:
  assumes "fst (getLatitudeLongitude geo pincode countrycode) = Some co"
    and "nrel co = Response True (JsonBody data)"
  shows "fst (SolarData_getSolarData geo nrel pincode countrycode cap s)
           = s\<lparr>solarData := Some (combinedData data cap), loading := False, error := ''''\<rparr>"
proof -
  from assms have "getLatitudeLongitude geo pincode countrycode
                     = (Some co, [Get (geocode_url pincode countrycode)])"
    using getLatitudeLongitude_requests [of geo pincode countrycode] by simp
  with assms(2) show ?thesis
    by (simp add: SolarData_getSolarData_def SolarData_getSolarData_try_def Let_def)
qed

text \<open>
  The run of PostcodeSolarData.tsx: the same requests, and on success the 365 daily
  entries are stored.
\<close>

lemma PostcodeSolarData_getSolarData_unresolved:
  assumes "fst (getLatitudeLongitude geo pincode countrycode) = None"
  shows "PostcodeSolarData_getSolarData geo nrel pincode countrycode cap s
           = (s\<lparr>loading := False, error := fetch_error_message\<rparr>,
              [Get (geocode_url pincode countrycode)])"
proof -
  from assms have "getLatitudeLongitude geo pincode countrycode
                     = (None, [Get (geocode_url pincode countrycode)])"
    using getLatitudeLongitude_requests [of geo pincode countrycode] by simp
  then show ?thesis
    by (simp add: PostcodeSolarData_getSolarData_def PostcodeSolarData_getSolarData_try_def)
qed

lemma PostcodeSolarData_getSolarData_success:
  assumes "fst (getLatitudeLongitude geo pincode countrycode) = Some co"
    and "nrel co = Response True (JsonBody data)"
  shows "PostcodeSolarData_getSolarData geo nrel pincode countrycode cap s
           = (s\<lparr>solarData := map (dayEntry (acPower (outputs.ac (outputs data)) cap)) [0..<365],
                loading := False, error := ''''\<rparr>,
              [Get (geocode_url pincode countrycode), PostJson ''/api/NREL'' (lat co) (long co)])"
proof -
  from assms have "getLatitudeLongitude geo pincode countrycode
                     = (Some co, [Get (geocode_url pincode countrycode)])"
    using getLatitudeLongitude_requests [of geo pincode countrycode] by simp
  with assms(2) show ?thesis
    by (simp add: PostcodeSolarData_getSolarData_def PostcodeSolarData_getSolarData_try_def
        Let_def dailyData_closed)
qed

text \<open>
  C8: the requests of a run are the geocoding request first and then, only when the
  resolver returned coordinates, the request to the proxy, which carries those
  coordinates. When the resolver returns \<open>null\<close> the run makes the geocoding request
  alone, sets the generic failure message and leaves \<open>solarData\<close> as it was.
\<close>

theorem pipeline_sequential:
  "snd (SolarData_getSolarData geo nrel pincode countrycode cap s)
     = Get (geocode_url pincode countrycode) #
       (case fst (getLatitudeLongitude geo pincode countrycode) of
          None \<Rightarrow> []
        | Some co \<Rightarrow> [PostJson ''/api/NREL'' (lat co) (long co)])
   \<and> (fst (getLatitudeLongitude geo pincode countrycode) = None \<longrightarrow>
        snd (SolarData_getSolarData geo nrel pincode countrycode cap s)
          = [Get (geocode_url pincode countrycode)] \<and>
        error (fst (SolarData_getSolarData geo nrel pincode countrycode cap s))
          = fetch_error_message \<and>
        solarData (fst (SolarData_getSolarData geo nrel pincode countrycode cap s))
          = solarData s \<and>
        loading (fst (SolarData_getSolarData geo nrel pincode countrycode cap s)) = False)"
proof (cases "fst (getLatitudeLongitude geo pincode countrycode)")
  case None
  then show ?thesis
    by (simp add: SolarData_getSolarData_unresolved)
next
  case (Some co)
  then show ?thesis
    by (simp add: SolarData_getSolarData_resolved)
qed

text \<open>The geocoding service answers with an empty result list.\<close>

theorem pipeline_sequential_witness:
  "fst (getLatitudeLongitude (answering (listing [])) ''400001'' ''IN'') = None \<and>
   SolarData_getSolarData (answering (listing []))
       (answering (Response True (JsonBody sample_data))) ''400001'' ''IN'' (Fin 1000)
       SolarData_initial
     = (\<lparr>solarData = None, loading = False, error = fetch_error_message\<rparr>,
        [Get (geocode_url ''400001'' ''IN'')])"
proof -
  have h: "fst (getLatitudeLongitude (answering (listing [])) ''400001'' ''IN'') = None"
    by (simp add: resolve_eval)
  from h pipeline_sequential [of "answering (listing [])"
      "answering (Response True (JsonBody sample_data))" "''400001''" "''IN''" "Fin 1000"
      SolarData_initial]
  have "snd (SolarData_getSolarData (answering (listing []))
       (answering (Response True (JsonBody sample_data))) ''400001'' ''IN'' (Fin 1000)
       SolarData_initial) = [Get (geocode_url ''400001'' ''IN'')]"
    and "fst (SolarData_getSolarData (answering (listing []))
       (answering (Response True (JsonBody sample_data))) ''400001'' ''IN'' (Fin 1000)
       SolarData_initial) = \<lparr>solarData = None, loading = False, error = fetch_error_message\<rparr>"
    by (simp_all add: SolarData_initial_def)
  with h show ?thesis
    by (simp add: prod_eq_iff)
qed

text \<open>
  C9: the bundle is a function of the upstream payload and the capacity alone. Two
  runs that reach the transformer with the same payload and the same capacity store
  the same bundle, whatever the state before the run, the postcode, the country code
  and the coordinates were.
\<close>

theorem transformer_deterministic:
  assumes "fst (getLatitudeLongitude geo pincode countrycode) = Some co"
    and "fst (getLatitudeLongitude geo' pincode' countrycode') = Some co'"
    and "nrel co = Response True (JsonBody data)"
    and "nrel' co' = Response True (JsonBody data)"
  shows "solarData (fst (SolarData_getSolarData geo nrel pincode countrycode cap s))
           = Some (combinedData data cap) \<and>
         solarData (fst (SolarData_getSolarData geo' nrel' pincode' countrycode' cap s'))
           = solarData (fst (SolarData_getSolarData geo nrel pincode countrycode cap s))"
  using assms by (simp add: SolarData_getSolarData_success)

text \<open>
  Two runs for different postcodes from different states, with the same payload at
  capacity 5000.
\<close>

theorem transformer_deterministic_witness:
  "fst (getLatitudeLongitude (answering (found ''18.94'' ''72.83'')) ''400001'' ''IN'')
     = Some \<lparr>lat = Fin (5331136058899825 / 2 ^ 48),
             long = Fin (5124955638459269 / 2 ^ 46)\<rparr> \<and>
   fst (getLatitudeLongitude (answering (found ''51.5'' ''-0.12'')) ''SW1A'' ''GB'')
     = Some \<lparr>lat = Fin 51.5, long = Fin (- (1080863910568919 / 2 ^ 53))\<rparr> \<and>
   solarData (fst (SolarData_getSolarData (answering (found ''51.5'' ''-0.12''))
                     (answering (Response True (JsonBody sample_data))) ''SW1A'' ''GB''
                     (Fin 5000) (SolarData_initial\<lparr>error := ''Please fill in all fields''\<rparr>)))
     = solarData (fst (SolarData_getSolarData (answering (found ''18.94'' ''72.83''))
                     (answering (Response True (JsonBody sample_data))) ''400001'' ''IN''
                     (Fin 5000) SolarData_initial))"
proof -
  have a: "fst (getLatitudeLongitude (answering (found ''18.94'' ''72.83'')) ''400001'' ''IN'')
     = Some \<lparr>lat = Fin (5331136058899825 / 2 ^ 48),
             long = Fin (5124955638459269 / 2 ^ 46)\<rparr>"
    by (simp add: resolve_eval parseFloat_values)
  have b: "fst (getLatitudeLongitude (answering (found ''51.5'' ''-0.12'')) ''SW1A'' ''GB'')
     = Some \<lparr>lat = Fin 51.5, long = Fin (- (1080863910568919 / 2 ^ 53))\<rparr>"
    by (simp add: resolve_eval parseFloat_values)
  have c: "answering (Response True (JsonBody sample_data)) co
             = Response True (JsonBody sample_data)" for co :: coords
    by (simp add: answering_def)
  from transformer_deterministic
         [where nrel = "answering (Response True (JsonBody sample_data))"
            and nrel' = "answering (Response True (JsonBody sample_data))"
            and cap = "Fin 5000" and s = SolarData_initial
            and s' = "SolarData_initial\<lparr>error := ''Please fill in all fields''\<rparr>",
          OF a b c c]
       a b
  show ?thesis
    by blast
qed

section \<open>Properties of the proxy endpoint\<close>

text \<open>
  C7: the proxy answers with an error object and status 500 when the credential is
  absent (not set, or empty), when the upstream call rejects and when the upstream
  response is not successful; when the upstream response is successful with a JSON
  body it answers with that body, unchanged, and status 200.
\<close>

theorem proxy_responses:
  "(NREL_API = None \<or> NREL_API = Some '''' \<longrightarrow>
      (\<exists>msg. POST fetch NREL_API req = \<lparr>body = ErrorObject msg, NextResponse.status = 500\<rparr>))
   \<and> (req = JsonBody (lat_text, long_text) \<and> NREL_API = Some apiKey \<and>
       fetch (nrel_url apiKey lat_text long_text) = FetchRejected thrown \<longrightarrow>
      (\<exists>msg. POST fetch NREL_API req = \<lparr>body = ErrorObject msg, NextResponse.status = 500\<rparr>))
   \<and> (req = JsonBody (lat_text, long_text) \<and> NREL_API = Some apiKey \<and>
       fetch (nrel_url apiKey lat_text long_text) = Response False payload \<longrightarrow>
      (\<exists>msg. POST fetch NREL_API req = \<lparr>body = ErrorObject msg, NextResponse.status = 500\<rparr>))
   \<and> (req = JsonBody (lat_text, long_text) \<and> NREL_API = Some apiKey \<and> apiKey \<noteq> '''' \<and>
       fetch (nrel_url apiKey lat_text long_text) = Response True (JsonBody data) \<longrightarrow>
      POST fetch NREL_API req = \<lparr>body = Relayed data, NextResponse.status = 200\<rparr>)"
  by (auto simp: POST_def POST_try_def Let_def split: json_result.splits exn.splits)

text \<open>One request for each of the four cases.\<close>

theorem proxy_responses_witness:
  "POST (answering (Response True (JsonBody sample_data))) None
        (JsonBody (''18.94'', ''72.83''))
     = \<lparr>body = ErrorObject ''NREL API key is missing in environment variables'',
        NextResponse.status = 500\<rparr> \<and>
   POST (answering (FetchRejected (Error ''fetch failed''))) (Some ''DEMO_KEY'')
        (JsonBody (''18.94'', ''72.83''))
     = \<lparr>body = (ErrorObject ''fetch failed'' :: SolarDataResponse response_body),
        NextResponse.status = 500\<rparr> \<and>
   POST (answering (Response False (JsonBody sample_data))) (Some ''DEMO_KEY'')
        (JsonBody (''18.94'', ''72.83''))
     = \<lparr>body = ErrorObject ''Failed to fetch data from NREL API'',
        NextResponse.status = 500\<rparr> \<and>
   POST (answering (Response True (JsonBody sample_data))) (Some ''DEMO_KEY'')
        (JsonBody (''18.94'', ''72.83''))
     = \<lparr>body = Relayed sample_data, NextResponse.status = 200\<rparr>"
  using
    proxy_responses [where fetch = "answering (Response True (JsonBody sample_data))"
      and NREL_API = None and req = "JsonBody (''18.94'', ''72.83'')"]
    proxy_responses [where fetch = "answering (FetchRejected (Error ''fetch failed''))"
      and NREL_API = "Some ''DEMO_KEY''" and req = "JsonBody (''18.94'', ''72.83'')"
      and lat_text = "''18.94''" and long_text = "''72.83''" and apiKey = "''DEMO_KEY''"
      and thrown = "Error ''fetch failed''" and data = sample_data]
    proxy_responses [where fetch = "answering (Response False (JsonBody sample_data))"
      and NREL_API = "Some ''DEMO_KEY''" and req = "JsonBody (''18.94'', ''72.83'')"
      and lat_text = "''18.94''" and long_text = "''72.83''" and apiKey = "''DEMO_KEY''"
      and payload = "JsonBody sample_data"]
    proxy_responses [where fetch = "answering (Response True (JsonBody sample_data))"
      and NREL_API = "Some ''DEMO_KEY''" and req = "JsonBody (''18.94'', ''72.83'')"
      and lat_text = "''18.94''" and long_text = "''72.83''" and apiKey = "''DEMO_KEY''"
      and data = sample_data]
  by (simp add: POST_def POST_try_def answering_def)

end
